theory Spec2Isabelle
  imports Main "HOL-Library.Sublist"
begin

section \<open>Python values and exceptions\<close>

text \<open>
  The server handles dynamically typed data: the tool arguments (\<open>dict[str, Any]\<close>) and the
  decoded JSON body of the backend's response. Both are values of \<open>pyval\<close>. A dictionary is
  an association list in insertion order, read through \<open>map_of\<close>. Each \<open>char\<close> of a
  string stands for one character of the Python string, so \<open>length\<close> is Python's
  \<open>len\<close>. Floating-point numbers are not part of the embedding.
\<close>

datatype pyval =
    PNone
  | PBool bool
  | PInt int
  | PStr string
  | PList "pyval list"
  | PDict "(string \<times> pyval) list"

text \<open>
  Exceptions are values. The first five are raised by the repository's own code and carry
  the message they were built with (\<open>SearXNGClientError\<close> is the base class of the three
  classes after it). \<open>TypeError\<close>, \<open>KeyError\<close> and \<open>ValidationError\<close> are raised by the
  interpreter and by pydantic; they carry what the operation was applied to, and their text
  is the runtime's. \<open>OtherException\<close> is any other exception a library call raises, with
  its text.
\<close>

datatype exc =
    ValueError string
  | SearXNGClientError string
  | SearXNGConnectionError string
  | SearXNGTimeoutError string
  | SearXNGResponseError string
  | TypeError pyval
  | KeyError string
  | ValidationError string
  | OtherException string

text \<open>
  The exceptions of httpx that derive from \<open>httpx.HTTPError\<close>. The source catches
  \<open>TimeoutException\<close> first, then \<open>ConnectError\<close>, then \<open>HTTPError\<close>.
\<close>

datatype httpx_error =
    ConnectTimeout | ReadTimeout | WriteTimeout | PoolTimeout
  | ConnectError | ReadError | WriteError | CloseError
  | LocalProtocolError | RemoteProtocolError
  | ProxyError | UnsupportedProtocol
  | DecodingError | TooManyRedirects
  | HTTPStatusError

fun is_TimeoutException :: "httpx_error \<Rightarrow> bool" where
  "is_TimeoutException ConnectTimeout = True"
| "is_TimeoutException ReadTimeout = True"
| "is_TimeoutException WriteTimeout = True"
| "is_TimeoutException PoolTimeout = True"
| "is_TimeoutException _ = False"

fun is_ConnectError :: "httpx_error \<Rightarrow> bool" where
  "is_ConnectError ConnectError = True"
| "is_ConnectError _ = False"

subsection \<open>Operations of the interpreter the source relies on\<close>

fun truthy :: "pyval \<Rightarrow> bool" where
  "truthy PNone = False"
| "truthy (PBool b) = b"
| "truthy (PInt n) = (n \<noteq> 0)"
| "truthy (PStr s) = (s \<noteq> [])"
| "truthy (PList xs) = (xs \<noteq> [])"
| "truthy (PDict kvs) = (kvs \<noteq> [])"

text \<open>\<open>d.get(k, default)\<close> on a dictionary.\<close>

definition dict_get :: "(string \<times> pyval) list \<Rightarrow> string \<Rightarrow> pyval \<Rightarrow> pyval" where
  "dict_get kvs k d = (case map_of kvs k of None \<Rightarrow> d | Some v \<Rightarrow> v)"

text \<open>
  \<open>k in v\<close> for a string \<open>k\<close>: a key of a dictionary, an element of a list, a substring
  of a string; a \<open>TypeError\<close> on anything else.
\<close>

fun py_in :: "string \<Rightarrow> pyval \<Rightarrow> exc + bool" where
  "py_in k (PDict kvs) = Inr (k \<in> set (map fst kvs))"
| "py_in k (PList xs) = Inr (PStr k \<in> set xs)"
| "py_in k (PStr s) = Inr (sublist k s)"
| "py_in k v = Inl (TypeError v)"

text \<open>\<open>v[k]\<close> for a string \<open>k\<close>: only a dictionary can be indexed by a string.\<close>

fun py_getitem :: "pyval \<Rightarrow> string \<Rightarrow> exc + pyval" where
  "py_getitem (PDict kvs) k = (case map_of kvs k of None \<Rightarrow> Inl (KeyError k) | Some v \<Rightarrow> Inr v)"
| "py_getitem v k = Inl (TypeError v)"

text \<open>
  \<open>for x in v\<close>: the elements of a list, the keys of a dictionary, the characters of a
  string; a \<open>TypeError\<close> on anything else.
\<close>

fun py_iter :: "pyval \<Rightarrow> exc + pyval list" where
  "py_iter (PList xs) = Inr xs"
| "py_iter (PDict kvs) = Inr (map (\<lambda>kv. PStr (fst kv)) kvs)"
| "py_iter (PStr s) = Inr (map (\<lambda>c. PStr [c]) s)"
| "py_iter v = Inl (TypeError v)"

fun join :: "string \<Rightarrow> string list \<Rightarrow> string" where
  "join sep [] = []"
| "join sep [x] = x"
| "join sep (x # y # ys) = x @ sep @ join sep (y # ys)"

fun as_str :: "pyval \<Rightarrow> string option" where
  "as_str (PStr s) = Some s"
| "as_str _ = None"

fun as_str_list :: "pyval list \<Rightarrow> string list option" where
  "as_str_list [] = Some []"
| "as_str_list (x # xs) =
     (case as_str x of
        None \<Rightarrow> None
      | Some s \<Rightarrow> (case as_str_list xs of None \<Rightarrow> None | Some ss \<Rightarrow> Some (s # ss)))"

text \<open>\<open>sep.join(v)\<close>: every item must be a string.\<close>

fun py_join :: "string \<Rightarrow> pyval \<Rightarrow> exc + string" where
  "py_join sep (PList xs) =
     (case as_str_list xs of None \<Rightarrow> Inl (TypeError (PList xs)) | Some ss \<Rightarrow> Inr (join sep ss))"
| "py_join sep (PStr s) = Inr (join sep (map (\<lambda>c. [c]) s))"
| "py_join sep (PDict kvs) = Inr (join sep (map fst kvs))"
| "py_join sep v = Inl (TypeError v)"

text \<open>\<open>s.rstrip(c)\<close> for a single character \<open>c\<close>: every trailing \<open>c\<close> is removed.\<close>

definition rstrip :: "char \<Rightarrow> string \<Rightarrow> string" where
  "rstrip c s = rev (dropWhile (\<lambda>x. x = c) (rev s))"

text \<open>Decimal text of an integer, as an f-string renders it.\<close>

definition digit :: "nat \<Rightarrow> char" where
  "digit d = ''0123456789'' ! d"

function str_nat :: "nat \<Rightarrow> string" where
  "str_nat n = (if n < 10 then [digit n] else str_nat (n div 10) @ [digit (n mod 10)])"
  by pat_completeness auto
termination
  by (relation "measure id") auto

declare str_nat.simps [simp del]

definition str_int :: "int \<Rightarrow> string" where
  "str_int i = (if i < 0 then CHR ''-'' # str_nat (nat (- i)) else str_nat (nat i))"

section \<open>Configuration and models\<close>

record Config =
  searxng_base_url :: string
  searxng_timeout :: int
  log_level :: string
  max_results_limit :: int

record SearchResult =
  title :: string
  url :: string
  content :: string
  publishedDate :: "string option"
  engines :: "string list"

record SearchResults =
  query :: string
  results :: "SearchResult list"
  number_of_results :: int

text \<open>
  Building a model validates the field types declared in \<open>models.py\<close>: \<open>str\<close> takes a
  string, \<open>Optional[str]\<close> a string or \<open>None\<close>, \<open>list[str]\<close> a list of strings, and
  \<open>number_of_results\<close> an integer that is at least 0. Anything else raises pydantic's
  \<open>ValidationError\<close>.
\<close>

fun as_opt_str :: "pyval \<Rightarrow> string option option" where
  "as_opt_str PNone = Some None"
| "as_opt_str (PStr s) = Some (Some s)"
| "as_opt_str _ = None"

fun as_list_of_str :: "pyval \<Rightarrow> string list option" where
  "as_list_of_str (PList xs) = as_str_list xs"
| "as_list_of_str _ = None"

definition SearchResult_init ::
  "pyval \<Rightarrow> pyval \<Rightarrow> pyval \<Rightarrow> pyval \<Rightarrow> pyval \<Rightarrow> exc + SearchResult" where
  "SearchResult_init t u c p e =
     (case as_str t of None \<Rightarrow> Inl (ValidationError ''SearchResult'') | Some t' \<Rightarrow>
     (case as_str u of None \<Rightarrow> Inl (ValidationError ''SearchResult'') | Some u' \<Rightarrow>
     (case as_str c of None \<Rightarrow> Inl (ValidationError ''SearchResult'') | Some c' \<Rightarrow>
     (case as_opt_str p of None \<Rightarrow> Inl (ValidationError ''SearchResult'') | Some p' \<Rightarrow>
     (case as_list_of_str e of None \<Rightarrow> Inl (ValidationError ''SearchResult'') | Some e' \<Rightarrow>
        Inr \<lparr>title = t', url = u', content = c', publishedDate = p', engines = e'\<rparr>)))))"

definition SearchResults_init :: "pyval \<Rightarrow> SearchResult list \<Rightarrow> int \<Rightarrow> exc + SearchResults" where
  "SearchResults_init q rs n =
     (case as_str q of
        None \<Rightarrow> Inl (ValidationError ''SearchResults'')
      | Some q' \<Rightarrow>
          if n < 0 then Inl (ValidationError ''SearchResults'')
          else Inr \<lparr>query = q', results = rs, number_of_results = n\<rparr>)"

section \<open>The HTTP client (\<open>searxng_client.py\<close>)\<close>

record SearXNGClient =
  base_url :: string
  timeout :: int
  client_max_results_limit :: int
  headers :: "(string \<times> string) list"

definition SearXNGClient_init :: "Config \<Rightarrow> SearXNGClient" where
  "SearXNGClient_init cfg =
     \<lparr>base_url = rstrip CHR ''/'' (searxng_base_url cfg),
      timeout = searxng_timeout cfg,
      client_max_results_limit = max_results_limit cfg,
      headers = [(''User-Agent'', ''searxng-mcp-server/1.0''), (''Accept'', ''application/json'')]\<rparr>"

text \<open>
  A GET request as the client issues it, and what comes back from
  \<open>client.get(...)\<close> followed by \<open>response.raise_for_status()\<close>: an httpx exception with
  its text, another exception with its text, or a response, whose body \<open>response.json()\<close>
  decodes (\<open>None\<close> when decoding raises).
\<close>

record request =
  req_url :: string
  req_params :: "(string \<times> pyval) list"
  req_headers :: "(string \<times> string) list"
  req_timeout :: int

datatype http_outcome =
    Raises_httpx httpx_error string
  | Raises_other string
  | Responds "pyval option"

text \<open>
  What the code does not determine: the backend's answer to a request, and the text of
  the exceptions that the interpreter and pydantic raise.
\<close>

record runtime =
  http_get :: "request \<Rightarrow> http_outcome"
  lib_text :: "exc \<Rightarrow> string"

text \<open>\<open>str(e)\<close>, as the f-strings of the error messages render an exception.\<close>

fun str_exc :: "runtime \<Rightarrow> exc \<Rightarrow> string" where
  "str_exc rt (ValueError m) = m"
| "str_exc rt (SearXNGClientError m) = m"
| "str_exc rt (SearXNGConnectionError m) = m"
| "str_exc rt (SearXNGTimeoutError m) = m"
| "str_exc rt (SearXNGResponseError m) = m"
| "str_exc rt (OtherException m) = m"
| "str_exc rt e = lib_text rt e"

text \<open>
  What a call does besides returning: HTTP requests sent, and in the tool handler the
  creation of the client and the call of \<open>search\<close> with its five arguments.
\<close>

datatype event =
    HttpGet request
  | NewClient
  | SearchCall pyval pyval pyval pyval pyval

subsection \<open>\<open>health_check\<close>\<close>

definition health_request :: "SearXNGClient \<Rightarrow> request" where
  "health_request c =
     \<lparr>req_url = base_url c @ ''/search'',
      req_params = [(''q'', PStr ''test''), (''format'', PStr ''json'')],
      req_headers = headers c, req_timeout = timeout c\<rparr>"

definition health_check :: "runtime \<Rightarrow> SearXNGClient \<Rightarrow> (exc + bool) \<times> event list" where
  "health_check rt c =
     (case http_get rt (health_request c) of
        Responds body \<Rightarrow> Inr True
      | Raises_httpx e m \<Rightarrow>
          if is_TimeoutException e then
            Inl (SearXNGTimeoutError
              (''SearXNG health check timed out after '' @ str_int (timeout c) @ ''s''))
          else if is_ConnectError e then
            Inl (SearXNGConnectionError
              (''Unable to connect to SearXNG at '' @ base_url c @
               ''. Please ensure SearXNG is running.''))
          else Inl (SearXNGConnectionError (''HTTP error while connecting to SearXNG: '' @ m))
      | Raises_other m \<Rightarrow> Inl (OtherException m),
      [HttpGet (health_request c)])"

subsection \<open>\<open>search\<close>\<close>

text \<open>
  Lines 132-136: \<open>max_results is not None and max_results > self.max_results_limit\<close>
  raises \<open>ValueError\<close>. A \<open>bool\<close> is an \<open>int\<close> in Python (\<open>True\<close> is 1); comparing any
  other value with an integer raises \<open>TypeError\<close>. The result is the exception raised, if
  any.
\<close>

definition limit_message :: "string \<Rightarrow> int \<Rightarrow> string" where
  "limit_message shown lim =
     ''max_results ('' @ shown @ '') exceeds the configured limit of '' @ str_int lim"

fun check_limit :: "pyval \<Rightarrow> int \<Rightarrow> exc option" where
  "check_limit PNone lim = None"
| "check_limit (PInt n) lim =
     (if n > lim then Some (ValueError (limit_message (str_int n) lim)) else None)"
| "check_limit (PBool b) lim =
     (if (if b then 1 else 0) > lim
      then Some (ValueError (limit_message (if b then ''True'' else ''False'') lim))
      else None)"
| "check_limit v lim = Some (TypeError v)"

text \<open>Lines 138-151: the query parameters, a dictionary filled in this order.\<close>

definition build_params :: "pyval \<Rightarrow> pyval \<Rightarrow> pyval \<Rightarrow> pyval \<Rightarrow> exc + (string \<times> pyval) list" where
  "build_params q categories language time_range =
     (case (if truthy categories
            then (case py_join '','' categories of
                    Inl e \<Rightarrow> Inl e
                  | Inr s \<Rightarrow> Inr [(''categories'', PStr s)])
            else Inr [])
      of Inl e \<Rightarrow> Inl e
       | Inr cs \<Rightarrow>
           Inr ([(''q'', q), (''format'', PStr ''json'')] @ cs @
                (if truthy language then [(''language'', language)] else []) @
                (if truthy time_range then [(''time_range'', time_range)] else [])))"

text \<open>Lines 161-176: the three \<open>except\<close> clauses, in the source's order.\<close>

definition search_transport_error :: "SearXNGClient \<Rightarrow> httpx_error \<Rightarrow> string \<Rightarrow> exc" where
  "search_transport_error c e m =
     (if is_TimeoutException e then
        SearXNGTimeoutError (''Search request timed out after '' @ str_int (timeout c) @ ''s'')
      else if is_ConnectError e then
        SearXNGConnectionError
          (''Unable to connect to SearXNG at '' @ base_url c @
           ''. Please ensure SearXNG is running.'')
      else SearXNGConnectionError (''HTTP error while searching: '' @ m))"

text \<open>
  Lines 199-212: the loop over the elements of \<open>results\<close>, with the list built so far.
  \<open>all(k in result_data for k in ["title", "url", "content"])\<close> stops at the first key
  that is missing.
\<close>

fun all_in :: "string list \<Rightarrow> pyval \<Rightarrow> exc + bool" where
  "all_in [] v = Inr True"
| "all_in (k # ks) v =
     (case py_in k v of
        Inl e \<Rightarrow> Inl e
      | Inr False \<Rightarrow> Inr False
      | Inr True \<Rightarrow> all_in ks v)"

definition make_result :: "pyval \<Rightarrow> exc + SearchResult" where
  "make_result result_data =
     (case py_getitem result_data ''title'' of Inl e \<Rightarrow> Inl e | Inr t \<Rightarrow>
     (case py_getitem result_data ''url'' of Inl e \<Rightarrow> Inl e | Inr u \<Rightarrow>
     (case py_getitem result_data ''content'' of Inl e \<Rightarrow> Inl e | Inr c \<Rightarrow>
     (case result_data of
        PDict kvs \<Rightarrow>
          SearchResult_init t u c (dict_get kvs ''publishedDate'' PNone)
            (dict_get kvs ''engines'' (PList []))
      | _ \<Rightarrow> Inl (TypeError result_data)))))"

fun parse_results :: "pyval list \<Rightarrow> SearchResult list \<Rightarrow> exc + SearchResult list" where
  "parse_results [] acc = Inr acc"
| "parse_results (result_data # rest) acc =
     (case all_in [''title'', ''url'', ''content''] result_data of
        Inl e \<Rightarrow> Inl e
      | Inr False \<Rightarrow> parse_results rest acc
      | Inr True \<Rightarrow>
          (case make_result result_data of
             Inl e \<Rightarrow> Inl e
           | Inr r \<Rightarrow> parse_results rest (acc @ [r])))"

text \<open>
  Lines 214-216: \<open>if max_results is not None and max_results > 0: results =
  results[:max_results]\<close>.
\<close>

fun limit_results :: "pyval \<Rightarrow> SearchResult list \<Rightarrow> exc + SearchResult list" where
  "limit_results PNone rs = Inr rs"
| "limit_results (PInt n) rs = Inr (if n > 0 then take (nat n) rs else rs)"
| "limit_results (PBool b) rs = Inr (if b then take 1 rs else rs)"
| "limit_results v rs = Inl (TypeError v)"

text \<open>Lines 197-225, the body of the last \<open>try\<close>.\<close>

definition build_results :: "pyval \<Rightarrow> pyval \<Rightarrow> exc + SearchResults" where
  "build_results max_results data =
     (case py_getitem data ''results'' of Inl e \<Rightarrow> Inl e | Inr rv \<Rightarrow>
     (case py_iter rv of Inl e \<Rightarrow> Inl e | Inr items \<Rightarrow>
     (case parse_results items [] of Inl e \<Rightarrow> Inl e | Inr parsed \<Rightarrow>
     (case limit_results max_results parsed of Inl e \<Rightarrow> Inl e | Inr limited \<Rightarrow>
     (case py_getitem data ''query'' of Inl e \<Rightarrow> Inl e | Inr q \<Rightarrow>
        SearchResults_init q limited (int (length limited)))))))"

text \<open>Lines 178-231: from the response to the result.\<close>

definition parse_response :: "runtime \<Rightarrow> pyval \<Rightarrow> pyval option \<Rightarrow> exc + SearchResults" where
  "parse_response rt max_results body =
     (case body of
        None \<Rightarrow> Inl (SearXNGResponseError ''SearXNG returned malformed JSON response'')
      | Some data \<Rightarrow>
          (case py_in ''query'' data of
             Inl e \<Rightarrow> Inl e
           | Inr False \<Rightarrow>
               Inl (SearXNGResponseError
                 ''Invalid SearXNG response: missing 'query' field'')
           | Inr True \<Rightarrow>
               (case py_in ''results'' data of
                  Inl e \<Rightarrow> Inl e
                | Inr False \<Rightarrow>
                    Inl (SearXNGResponseError
                      ''Invalid SearXNG response: missing 'results' field'')
                | Inr True \<Rightarrow>
                    (case build_results max_results data of
                       Inl e \<Rightarrow>
                         Inl (SearXNGResponseError
                           (''Failed to parse SearXNG response: '' @ str_exc rt e))
                     | Inr rs \<Rightarrow> Inr rs))))"

definition search_request :: "SearXNGClient \<Rightarrow> (string \<times> pyval) list \<Rightarrow> request" where
  "search_request c ps =
     \<lparr>req_url = base_url c @ ''/search'', req_params = ps,
      req_headers = headers c, req_timeout = timeout c\<rparr>"

definition search ::
  "runtime \<Rightarrow> SearXNGClient \<Rightarrow> pyval \<Rightarrow> pyval \<Rightarrow> pyval \<Rightarrow> pyval \<Rightarrow> pyval
     \<Rightarrow> (exc + SearchResults) \<times> event list" where
  "search rt c q max_results categories language time_range =
     (case check_limit max_results (client_max_results_limit c) of
        Some e \<Rightarrow> (Inl e, [])
      | None \<Rightarrow>
          (case build_params q categories language time_range of
             Inl e \<Rightarrow> (Inl e, [])
           | Inr ps \<Rightarrow>
               (case http_get rt (search_request c ps) of
                  Raises_httpx e m \<Rightarrow>
                    (Inl (search_transport_error c e m), [HttpGet (search_request c ps)])
                | Raises_other m \<Rightarrow> (Inl (OtherException m), [HttpGet (search_request c ps)])
                | Responds body \<Rightarrow>
                    (parse_response rt max_results body, [HttpGet (search_request c ps)]))))"

section \<open>The MCP server (\<open>server.py\<close>)\<close>

record TextContent =
  tc_type :: string
  tc_text :: string

record SearXNGMCPServer =
  config :: Config
  client :: "SearXNGClient option"

subsection \<open>\<open>_format_search_results\<close>\<close>

text \<open>
  Lines 200-217: the loop over \<open>enumerate(results.results, 1)\<close>, appending to \<open>lines\<close>.
\<close>

fun format_loop :: "nat \<Rightarrow> SearchResult list \<Rightarrow> string list \<Rightarrow> string list" where
  "format_loop i [] lines = lines"
| "format_loop i (result # rest) lines =
     format_loop (Suc i) rest
       (lines
        @ [str_nat i @ ''. '' @ title result]
        @ [''   URL: '' @ url result]
        @ (if content result \<noteq> []
           then [''   '' @ (take 300 (content result)
                           @ (if length (content result) > 300 then ''...'' else []))]
           else [])
        @ (case publishedDate result of
             None \<Rightarrow> []
           | Some d \<Rightarrow> if d \<noteq> [] then [''   Published: '' @ d] else [])
        @ (if engines result \<noteq> []
           then [''   Sources: '' @ join '', '' (engines result)]
           else [])
        @ [[]])"

definition format_search_results :: "SearchResults \<Rightarrow> string" where
  "format_search_results rs =
     (if results rs = [] then ''No results found for query: '' @ query rs
      else join [CHR 0x0A]
             (format_loop 1 (results rs)
                [''Search results for: '' @ query rs,
                 ''Found '' @ str_int (number_of_results rs) @ '' results'' @ [CHR 0x0A]]))"

subsection \<open>\<open>_handle_web_search\<close> and \<open>call_tool\<close>\<close>

text \<open>
  \<open>isinstance(v, int)\<close> holds of an integer and of a \<open>bool\<close>, which Python counts as the
  integers 0 and 1; \<open>int_value\<close> is the integer such a value compares as.
\<close>

fun int_value :: "pyval \<Rightarrow> int option" where
  "int_value (PInt n) = Some n"
| "int_value (PBool b) = Some (if b then 1 else 0)"
| "int_value _ = None"

text \<open>Lines 155-181: the \<open>except\<close> clauses, in the source's order.\<close>

fun error_msg :: "runtime \<Rightarrow> Config \<Rightarrow> exc \<Rightarrow> string" where
  "error_msg rt cfg (SearXNGConnectionError m) =
     ''Failed to connect to SearXNG: '' @ m @ [CHR 0x0A, CHR 0x0A] @
     ''Please ensure SearXNG is running at '' @ searxng_base_url cfg"
| "error_msg rt cfg (SearXNGTimeoutError m) = ''Search request timed out: '' @ m"
| "error_msg rt cfg (SearXNGResponseError m) = ''Invalid response from SearXNG: '' @ m"
| "error_msg rt cfg (SearXNGClientError m) = ''SearXNG client error: '' @ m"
| "error_msg rt cfg e = ''Unexpected error during search: '' @ str_exc rt e"

text \<open>
  Lines 131-181: the client is created on first use and kept; \<open>search\<close> is called and its
  result formatted inside the \<open>try\<close>, and every exception is raised again as a
  \<open>ValueError\<close>.
\<close>

definition get_client :: "SearXNGMCPServer \<Rightarrow> SearXNGClient" where
  "get_client srv = (case client srv of None \<Rightarrow> SearXNGClient_init (config srv) | Some c \<Rightarrow> c)"

definition perform_search ::
  "runtime \<Rightarrow> SearXNGMCPServer \<Rightarrow> pyval \<Rightarrow> pyval \<Rightarrow> pyval \<Rightarrow> pyval \<Rightarrow> pyval
     \<Rightarrow> (exc + TextContent list) \<times> SearXNGMCPServer \<times> event list" where
  "perform_search rt srv q max_results categories language time_range =
     (let out = search rt (get_client srv) q max_results categories language time_range
      in ((case fst out of
             Inr rs \<Rightarrow> Inr [\<lparr>tc_type = ''text'', tc_text = format_search_results rs\<rparr>]
           | Inl e \<Rightarrow> Inl (ValueError (error_msg rt (config srv) e))),
          srv\<lparr>client := Some (get_client srv)\<rparr>,
          (if client srv = None then [NewClient] else []) @
          [SearchCall q max_results categories language time_range] @ snd out))"

text \<open>Lines 110-129: the arguments are read and validated before anything else happens.\<close>

definition handle_web_search ::
  "runtime \<Rightarrow> SearXNGMCPServer \<Rightarrow> (string \<times> pyval) list
     \<Rightarrow> (exc + TextContent list) \<times> SearXNGMCPServer \<times> event list" where
  "handle_web_search rt srv arguments =
     (let q = dict_get arguments ''query'' PNone in
      if \<not> truthy q then
        (Inl (ValueError (CHR 0x27 # ''query' parameter is required'')), srv, [])
      else
        let max_results = dict_get arguments ''max_results'' (PInt 10);
            categories = dict_get arguments ''categories'' PNone;
            language = dict_get arguments ''language'' PNone;
            time_range = dict_get arguments ''time_range'' PNone
        in (case int_value max_results of
              None \<Rightarrow>
                (Inl (ValueError (CHR 0x27 # ''max_results' must be a positive integer'')),
                 srv, [])
            | Some n \<Rightarrow>
                if n < 1 then
                  (Inl (ValueError (CHR 0x27 # ''max_results' must be a positive integer'')),
                   srv, [])
                else if n > max_results_limit (config srv) then
                  (Inl (ValueError
                     (CHR 0x27 # ''max_results' exceeds limit of '' @
                      str_int (max_results_limit (config srv)))),
                   srv, [])
                else perform_search rt srv q max_results categories language time_range))"

definition call_tool ::
  "runtime \<Rightarrow> SearXNGMCPServer \<Rightarrow> string \<Rightarrow> (string \<times> pyval) list
     \<Rightarrow> (exc + TextContent list) \<times> SearXNGMCPServer \<times> event list" where
  "call_tool rt srv name arguments =
     (if name \<noteq> ''web_search'' then (Inl (ValueError (''Unknown tool: '' @ name)), srv, [])
      else handle_web_search rt srv arguments)"

subsection \<open>Typed arguments\<close>

text \<open>
  The optional arguments of \<open>search\<close> as its annotations type them
  (\<open>Optional[str]\<close>, \<open>Optional[list[str]]\<close>), as Python values.
\<close>

definition opt_str :: "string option \<Rightarrow> pyval" where
  "opt_str s = (case s of None \<Rightarrow> PNone | Some x \<Rightarrow> PStr x)"

definition opt_str_list :: "string list option \<Rightarrow> pyval" where
  "opt_str_list xs = (case xs of None \<Rightarrow> PNone | Some ys \<Rightarrow> PList (map PStr ys))"

section \<open>Concrete inputs\<close>

text \<open>
  A configuration whose base URL ends with a slash, a server that has not created its
  client yet, and runtimes whose backend refuses the connection, answers with an HTTP
  error status, or does not answer in time.
\<close>

definition example_config :: Config where
  "example_config =
     \<lparr>searxng_base_url = ''http://localhost:8080/'', searxng_timeout = 10,
      log_level = ''INFO'', max_results_limit = 50\<rparr>"

definition example_server :: SearXNGMCPServer where
  "example_server = \<lparr>config = example_config, client = None\<rparr>"

definition refusing_runtime :: runtime where
  "refusing_runtime =
     \<lparr>http_get = (\<lambda>r. Raises_httpx ConnectError ''All connection attempts failed''),
      lib_text = (\<lambda>e. ''error'')\<rparr>"

definition status_runtime :: runtime where
  "status_runtime =
     \<lparr>http_get = (\<lambda>r. Raises_httpx HTTPStatusError ''Server error 500''),
      lib_text = (\<lambda>e. ''error'')\<rparr>"

definition slow_runtime :: runtime where
  "slow_runtime =
     \<lparr>http_get = (\<lambda>r. Raises_httpx ReadTimeout ''timed out''), lib_text = (\<lambda>e. ''error'')\<rparr>"

text \<open>
  A response body with three elements, the second of which has no \<open>content\<close>, the
  runtime whose backend answers with it, and the two results it yields.
\<close>

definition example_items :: "pyval list" where
  "example_items =
     [PDict [(''title'', PStr ''Rust''), (''url'', PStr ''https://rust-lang.org''),
             (''content'', PStr ''A systems language''),
             (''engines'', PList [PStr ''duckduckgo''])],
      PDict [(''title'', PStr ''No snippet''), (''url'', PStr ''https://example.org'')],
      PDict [(''title'', PStr ''Book''), (''url'', PStr ''https://doc.rust-lang.org''),
             (''content'', PStr ''The Rust book''),
             (''publishedDate'', PStr ''2024-01-01'')]]"

definition example_body :: pyval where
  "example_body =
     PDict [(''query'', PStr ''rust programming''), (''results'', PList example_items)]"

definition example_runtime :: runtime where
  "example_runtime =
     \<lparr>http_get = (\<lambda>r. Responds (Some example_body)), lib_text = (\<lambda>e. ''error'')\<rparr>"

definition rust_result :: SearchResult where
  "rust_result =
     \<lparr>title = ''Rust'', url = ''https://rust-lang.org'', content = ''A systems language'',
      publishedDate = None, engines = [''duckduckgo'']\<rparr>"

definition book_result :: SearchResult where
  "book_result =
     \<lparr>title = ''Book'', url = ''https://doc.rust-lang.org'', content = ''The Rust book'',
      publishedDate = Some ''2024-01-01'', engines = []\<rparr>"

text \<open>
  Two response bodies that parsing rejects: one whose first element is \<open>null\<close>, one whose
  only element has the three required keys with a \<open>null\<close> title; and the runtimes whose
  backend answers with them.
\<close>

definition null_element_body :: pyval where
  "null_element_body =
     PDict [(''query'', PStr ''rust''),
            (''results'',
             PList [PNone,
                    PDict [(''title'', PStr ''Rust''), (''url'', PStr ''https://rust-lang.org''),
                           (''content'', PStr ''A systems language'')]])]"

definition null_title_element :: pyval where
  "null_title_element =
     PDict [(''title'', PNone), (''url'', PStr ''https://rust-lang.org''),
            (''content'', PStr ''A systems language'')]"

definition null_title_body :: pyval where
  "null_title_body =
     PDict [(''query'', PStr ''rust''), (''results'', PList [null_title_element])]"

definition null_element_runtime :: runtime where
  "null_element_runtime =
     \<lparr>http_get = (\<lambda>r. Responds (Some null_element_body)), lib_text = (\<lambda>e. ''error'')\<rparr>"

definition null_title_runtime :: runtime where
  "null_title_runtime =
     \<lparr>http_get = (\<lambda>r. Responds (Some null_title_body)), lib_text = (\<lambda>e. ''error'')\<rparr>"

section \<open>The failure kinds of the specification\<close>

text \<open>
  The specification names five failure kinds. The client's exception classes stand for
  four of them; none stands for \<open>TransportFailure\<close>.
\<close>

datatype failure_kind =
    InvalidArgument | ConnectionFailure | TimeoutFailure | TransportFailure | MalformedResponse

fun failure_kind_of :: "exc \<Rightarrow> failure_kind option" where
  "failure_kind_of (ValueError m) = Some InvalidArgument"
| "failure_kind_of (SearXNGConnectionError m) = Some ConnectionFailure"
| "failure_kind_of (SearXNGTimeoutError m) = Some TimeoutFailure"
| "failure_kind_of (SearXNGResponseError m) = Some MalformedResponse"
| "failure_kind_of _ = None"

fun raised_kind :: "exc + 'a \<Rightarrow> failure_kind option" where
  "raised_kind (Inl e) = failure_kind_of e"
| "raised_kind (Inr v) = None"

text \<open>
  The mapping of transport errors in the specification's words: a connection that cannot
  be established is a \<open>ConnectionFailure\<close>, no response within the timeout a
  \<open>TimeoutFailure\<close>, any other transport-level error a \<open>TransportFailure\<close>.
\<close>

definition spec_transport_kind :: "httpx_error \<Rightarrow> failure_kind" where
  "spec_transport_kind e =
     (if is_TimeoutException e then TimeoutFailure
      else if is_ConnectError e then ConnectionFailure
      else TransportFailure)"

section \<open>Elements of the response and the results they stand for\<close>

text \<open>
  An element has the required fields when it is an object with the keys \<open>title\<close>, \<open>url\<close>
  and \<open>content\<close>. A result stands for such an element when its three strings are the
  element's, its \<open>publishedDate\<close> is the element's (\<open>None\<close> when the key is absent or
  null) and its \<open>engines\<close> are the element's (empty when the key is absent).
\<close>

definition has_required_fields :: "pyval \<Rightarrow> bool" where
  "has_required_fields e =
     (case e of
        PDict kvs \<Rightarrow>
          ''title'' \<in> fst ` set kvs \<and> ''url'' \<in> fst ` set kvs \<and> ''content'' \<in> fst ` set kvs
      | _ \<Rightarrow> False)"

definition item_of :: "pyval \<Rightarrow> SearchResult \<Rightarrow> bool" where
  "item_of e r =
     (case e of
        PDict kvs \<Rightarrow>
          map_of kvs ''title'' = Some (PStr (title r))
          \<and> map_of kvs ''url'' = Some (PStr (url r))
          \<and> map_of kvs ''content'' = Some (PStr (content r))
          \<and> (case map_of kvs ''publishedDate'' of
                None \<Rightarrow> publishedDate r = None
              | Some PNone \<Rightarrow> publishedDate r = None
              | Some (PStr d) \<Rightarrow> publishedDate r = Some d
              | Some _ \<Rightarrow> False)
          \<and> (case map_of kvs ''engines'' of
                None \<Rightarrow> engines r = []
              | Some (PList xs) \<Rightarrow> xs = map PStr (engines r)
              | Some _ \<Rightarrow> False)
      | _ \<Rightarrow> False)"

section \<open>The formatter's output, line by line\<close>

text \<open>The two header lines; the second ends with a newline of its own.\<close>

definition header_lines :: "SearchResults \<Rightarrow> string list" where
  "header_lines rs =
     [''Search results for: '' @ query rs,
      ''Found '' @ str_int (number_of_results rs) @ '' results'' @ [CHR 0x0A]]"

text \<open>
  The lines of one result in the specification's words: a title line, a URL line, a
  content line cut to 300 characters with an ellipsis when the content is longer and
  unchanged otherwise, a published-date line if a date is present, a sources line if there
  are engines, and an empty line.
\<close>

definition spec_item_lines :: "nat \<Rightarrow> SearchResult \<Rightarrow> string list" where
  "spec_item_lines i r =
     [str_nat i @ ''. '' @ title r,
      ''   URL: '' @ url r,
      ''   '' @ (if length (content r) > 300 then take 300 (content r) @ ''...'' else content r)]
     @ (case publishedDate r of None \<Rightarrow> [] | Some d \<Rightarrow> [''   Published: '' @ d])
     @ (if engines r = [] then [] else [''   Sources: '' @ join '', '' (engines r)])
     @ [[]]"

definition spec_format_search_results :: "SearchResults \<Rightarrow> string" where
  "spec_format_search_results rs =
     join [CHR 0x0A]
       (header_lines rs @
        concat (map (\<lambda>(i, r). spec_item_lines i r)
                  (zip [1..<Suc (length (results rs))] (results rs))))"

text \<open>
  The same, except that an empty content gives no content line and an empty date no
  published-date line.
\<close>

definition item_lines :: "nat \<Rightarrow> SearchResult \<Rightarrow> string list" where
  "item_lines i r =
     [str_nat i @ ''. '' @ title r,
      ''   URL: '' @ url r]
     @ (if content r = [] then []
        else [''   '' @ (if length (content r) > 300 then take 300 (content r) @ ''...''
                        else content r)])
     @ (case publishedDate r of
          None \<Rightarrow> []
        | Some d \<Rightarrow> if d = [] then [] else [''   Published: '' @ d])
     @ (if engines r = [] then [] else [''   Sources: '' @ join '', '' (engines r)])
     @ [[]]"

text \<open>
  Result sets: one whose only result has an empty content, one whose only result has an
  empty date, and one with a content of 301 characters.
\<close>

definition empty_content_set :: SearchResults where
  "empty_content_set =
     \<lparr>query = ''rust'',
      results = [\<lparr>title = ''Rust'', url = ''https://rust-lang.org'', content = [],
                  publishedDate = None, engines = []\<rparr>],
      number_of_results = 1\<rparr>"

definition empty_date_set :: SearchResults where
  "empty_date_set =
     \<lparr>query = ''rust'',
      results = [\<lparr>title = ''Rust'', url = ''https://rust-lang.org'',
                  content = ''A systems language'', publishedDate = Some [], engines = []\<rparr>],
      number_of_results = 1\<rparr>"

definition long_content_set :: SearchResults where
  "long_content_set =
     \<lparr>query = ''rust'',
      results = [\<lparr>title = ''Rust'', url = ''https://rust-lang.org'',
                  content = ''A systems language'', publishedDate = Some ''2024-01-01'',
                  engines = [''duckduckgo'', ''brave'']\<rparr>,
                 \<lparr>title = ''Long'', url = ''https://example.org'',
                  content = replicate 301 CHR ''a'', publishedDate = None, engines = []\<rparr>],
      number_of_results = 2\<rparr>"

section \<open>Properties\<close>

subsection \<open>Evaluation of the concrete inputs\<close>

lemma example_client:
  "SearXNGClient_init example_config =
     \<lparr>base_url = ''http://localhost:8080'', timeout = 10, client_max_results_limit = 50,
      headers = [(''User-Agent'', ''searxng-mcp-server/1.0''), (''Accept'', ''application/json'')]\<rparr>"
  by (simp add: SearXNGClient_init_def example_config_def rstrip_def)

lemma example_server_config: "config example_server = example_config"
  by (simp add: example_server_def)

lemma str_int_50: "str_int 50 = ''50''"
  by code_simp

lemma str_int_51: "str_int 51 = ''51''"
  by code_simp

lemma str_int_10: "str_int 10 = ''10''"
  by code_simp

lemma parse_example_items: "parse_results example_items [] = Inr [rust_result, book_result]"
  by (simp add: example_items_def make_result_def SearchResult_init_def dict_get_def
      rust_result_def book_result_def)

lemma example_request:
  "build_params (PStr ''rust programming'') PNone PNone PNone =
     Inr [(''q'', PStr ''rust programming''), (''format'', PStr ''json'')]"
  by (simp add: build_params_def)

lemma example_search:
  "search example_runtime (SearXNGClient_init example_config) (PStr ''rust programming'')
       (PInt 1) PNone PNone PNone =
     (Inr \<lparr>query = ''rust programming'', results = [rust_result], number_of_results = 1\<rparr>,
      [HttpGet (search_request (SearXNGClient_init example_config)
         [(''q'', PStr ''rust programming''), (''format'', PStr ''json'')])])"
  using parse_example_items
  by (simp add: search_def example_client example_request example_runtime_def example_body_def
      parse_response_def build_results_def SearchResults_init_def)

subsection \<open>The formatter on an empty result set\<close>

text \<open>
  Claim C8. When the result sequence is empty, the formatter returns exactly
  \<open>"No results found for query: {query}"\<close>, with the set's query, and nothing else.
\<close>

theorem format_no_results:
  "results rs = [] \<Longrightarrow> format_search_results rs = ''No results found for query: '' @ query rs"
  by (simp add: format_search_results_def)

theorem format_no_results_witness:
  "results \<lparr>query = ''rust'', results = [], number_of_results = 0\<rparr> = [] \<and>
   format_search_results \<lparr>query = ''rust'', results = [], number_of_results = 0\<rparr> =
     ''No results found for query: rust''"
  using format_no_results [of "\<lparr>query = ''rust'', results = [], number_of_results = 0\<rparr>"]
  by simp

subsection \<open>The ceiling on \<open>max_results\<close> in \<open>search\<close>\<close>

text \<open>
  Claim C2. A call of \<open>search\<close> whose \<open>max_results\<close> is given and exceeds the client's
  ceiling (taken from the configuration by \<open>SearXNGClient_init\<close>) fails with
  \<open>ValueError\<close>, and its list of events is empty: no HTTP request has been sent.
\<close>

theorem search_over_limit:
  "client_max_results_limit c < n \<Longrightarrow>
   search rt c q (PInt n) categories language time_range =
     (Inl (ValueError (limit_message (str_int n) (client_max_results_limit c))), [])"
  by (simp add: search_def)

theorem search_over_limit_witness:
  "search refusing_runtime (SearXNGClient_init example_config) (PStr ''rust'') (PInt 51)
       PNone PNone PNone =
     (Inl (ValueError ''max_results (51) exceeds the configured limit of 50''), [])"
  using search_over_limit [of "SearXNGClient_init example_config" 51 refusing_runtime
      "PStr ''rust''" PNone PNone PNone]
  by (simp add: example_client limit_message_def str_int_51 str_int_50)

subsection \<open>Validation in the tool handler\<close>



subsection \<open>Failures of \<open>search\<close> in the tool handler\<close>

lemma handle_web_search_raises_ValueError:
  "fst (handle_web_search rt srv arguments) = Inl x \<Longrightarrow> \<exists>msg. x = ValueError msg"
  by (auto simp: handle_web_search_def perform_search_def Let_def
      split: if_splits option.splits sum.splits)

lemma call_tool_raises_ValueError:
  "fst (call_tool rt srv name arguments) = Inl x \<Longrightarrow> \<exists>msg. x = ValueError msg"
  by (auto simp: call_tool_def dest: handle_web_search_raises_ValueError split: if_splits)

text \<open>
  Claim C4. When the arguments pass validation and \<open>search\<close>, called on the values taken
  from them with the server's client, raises an exception, the tool call raises a
  \<open>ValueError\<close> in its place whose message is that of the matching \<open>except\<close> clause: for a
  connection failure it ends with the configured base URL, and an exception of no class of
  the client's is reported as unexpected. The client is kept, and the events are the call
  of \<open>search\<close> and what \<open>search\<close> did. Whatever the name and the arguments, a tool call
  raises nothing but a \<open>ValueError\<close>.
\<close>

theorem search_failures_surface_as_ValueError:
  assumes "truthy (dict_get arguments ''query'' PNone)"
    and "int_value (dict_get arguments ''max_results'' (PInt 10)) = Some n"
    and "1 \<le> n" and "n \<le> max_results_limit (config srv)"
    and "c = (case client srv of None \<Rightarrow> SearXNGClient_init (config srv) | Some c' \<Rightarrow> c')"
    and "search rt c (dict_get arguments ''query'' PNone)
           (dict_get arguments ''max_results'' (PInt 10))
           (dict_get arguments ''categories'' PNone) (dict_get arguments ''language'' PNone)
           (dict_get arguments ''time_range'' PNone) = (Inl e, evs)"
  shows "call_tool rt srv ''web_search'' arguments =
      (Inl (ValueError
         (case e of
            SearXNGConnectionError m \<Rightarrow>
              ''Failed to connect to SearXNG: '' @ m @ [CHR 0x0A, CHR 0x0A] @
              ''Please ensure SearXNG is running at '' @ searxng_base_url (config srv)
          | SearXNGTimeoutError m \<Rightarrow> ''Search request timed out: '' @ m
          | SearXNGResponseError m \<Rightarrow> ''Invalid response from SearXNG: '' @ m
          | SearXNGClientError m \<Rightarrow> ''SearXNG client error: '' @ m
          | ValueError m \<Rightarrow> ''Unexpected error during search: '' @ m
          | OtherException m \<Rightarrow> ''Unexpected error during search: '' @ m
          | TypeError v \<Rightarrow> ''Unexpected error during search: '' @ lib_text rt (TypeError v)
          | KeyError k \<Rightarrow> ''Unexpected error during search: '' @ lib_text rt (KeyError k)
          | ValidationError k \<Rightarrow>
              ''Unexpected error during search: '' @ lib_text rt (ValidationError k))),
       srv\<lparr>client := Some c\<rparr>,
       (if client srv = None then [NewClient] else []) @
       [SearchCall (dict_get arguments ''query'' PNone)
          (dict_get arguments ''max_results'' (PInt 10))
          (dict_get arguments ''categories'' PNone) (dict_get arguments ''language'' PNone)
          (dict_get arguments ''time_range'' PNone)] @ evs)
   \<and> (\<forall>m. e = SearXNGConnectionError m \<longrightarrow>
         (\<exists>msg. fst (call_tool rt srv ''web_search'' arguments) = Inl (ValueError msg)
                \<and> suffix (searxng_base_url (config srv)) msg))
   \<and> (\<forall>name' arguments' x. fst (call_tool rt srv name' arguments') = Inl x \<longrightarrow>
         (\<exists>msg. x = ValueError msg))"
proof -
  from assms(5) have c: "get_client srv = c"
    by (simp add: get_client_def)
  have delegated: "call_tool rt srv ''web_search'' arguments =
      perform_search rt srv (dict_get arguments ''query'' PNone)
        (dict_get arguments ''max_results'' (PInt 10))
        (dict_get arguments ''categories'' PNone) (dict_get arguments ''language'' PNone)
        (dict_get arguments ''time_range'' PNone)"
    using assms(1-4) by (simp add: call_tool_def handle_web_search_def Let_def)
  have first: "call_tool rt srv ''web_search'' arguments =
      (Inl (ValueError
         (case e of
            SearXNGConnectionError m \<Rightarrow>
              ''Failed to connect to SearXNG: '' @ m @ [CHR 0x0A, CHR 0x0A] @
              ''Please ensure SearXNG is running at '' @ searxng_base_url (config srv)
          | SearXNGTimeoutError m \<Rightarrow> ''Search request timed out: '' @ m
          | SearXNGResponseError m \<Rightarrow> ''Invalid response from SearXNG: '' @ m
          | SearXNGClientError m \<Rightarrow> ''SearXNG client error: '' @ m
          | ValueError m \<Rightarrow> ''Unexpected error during search: '' @ m
          | OtherException m \<Rightarrow> ''Unexpected error during search: '' @ m
          | TypeError v \<Rightarrow> ''Unexpected error during search: '' @ lib_text rt (TypeError v)
          | KeyError k \<Rightarrow> ''Unexpected error during search: '' @ lib_text rt (KeyError k)
          | ValidationError k \<Rightarrow>
              ''Unexpected error during search: '' @ lib_text rt (ValidationError k))),
       srv\<lparr>client := Some c\<rparr>,
       (if client srv = None then [NewClient] else []) @
       [SearchCall (dict_get arguments ''query'' PNone)
          (dict_get arguments ''max_results'' (PInt 10))
          (dict_get arguments ''categories'' PNone) (dict_get arguments ''language'' PNone)
          (dict_get arguments ''time_range'' PNone)] @ evs)"
    unfolding delegated using assms(6)
    by (cases e) (simp_all add: perform_search_def c)
  have second: "\<forall>m. e = SearXNGConnectionError m \<longrightarrow>
         (\<exists>msg. fst (call_tool rt srv ''web_search'' arguments) = Inl (ValueError msg)
                \<and> suffix (searxng_base_url (config srv)) msg)"
    by (simp add: first suffix_def)
  have third: "\<forall>name' arguments' x. fst (call_tool rt srv name' arguments') = Inl x \<longrightarrow>
         (\<exists>msg. x = ValueError msg)"
    by (blast dest: call_tool_raises_ValueError)
  from first second third show ?thesis
    by blast
qed

theorem search_failures_surface_as_ValueError_witness:
  "call_tool refusing_runtime example_server ''web_search'' [(''query'', PStr ''rust'')] =
     (Inl (ValueError
       (''Failed to connect to SearXNG: Unable to connect to SearXNG at http://localhost:8080. Please ensure SearXNG is running.''
        @ [CHR 0x0A, CHR 0x0A] @ ''Please ensure SearXNG is running at http://localhost:8080/'')),
      example_server\<lparr>client := Some (SearXNGClient_init example_config)\<rparr>,
      [NewClient, SearchCall (PStr ''rust'') (PInt 10) PNone PNone PNone,
       HttpGet (search_request (SearXNGClient_init example_config)
         [(''q'', PStr ''rust''), (''format'', PStr ''json'')])])"
proof -
  have failure:
    "search refusing_runtime (SearXNGClient_init example_config)
       (dict_get [(''query'', PStr ''rust'')] ''query'' PNone)
       (dict_get [(''query'', PStr ''rust'')] ''max_results'' (PInt 10))
       (dict_get [(''query'', PStr ''rust'')] ''categories'' PNone)
       (dict_get [(''query'', PStr ''rust'')] ''language'' PNone)
       (dict_get [(''query'', PStr ''rust'')] ''time_range'' PNone) =
       (Inl (SearXNGConnectionError
         ''Unable to connect to SearXNG at http://localhost:8080. Please ensure SearXNG is running.''),
        [HttpGet (search_request (SearXNGClient_init example_config)
           [(''q'', PStr ''rust''), (''format'', PStr ''json'')])])"
    by (simp add: dict_get_def example_client search_def build_params_def
        refusing_runtime_def search_transport_error_def)
  have fresh: "SearXNGClient_init example_config =
      (case client example_server of
         None \<Rightarrow> SearXNGClient_init (config example_server) | Some c' \<Rightarrow> c')"
    by (simp add: example_server_def)
  have valid: "truthy (dict_get [(''query'', PStr ''rust'')] ''query'' PNone)"
    "int_value (dict_get [(''query'', PStr ''rust'')] ''max_results'' (PInt 10)) = Some 10"
    "(1::int) \<le> 10" "10 \<le> max_results_limit (config example_server)"
    by (simp_all add: dict_get_def example_server_def example_config_def)
  from search_failures_surface_as_ValueError [OF valid fresh failure, THEN conjunct1]
  show ?thesis
    by (simp add: dict_get_def example_server_def example_config_def)
qed

subsection \<open>Transport errors in \<open>health_check\<close> and \<open>search\<close>\<close>

text \<open>
  Claim C3, as stated, fails: an HTTP error status is a transport-level error other than a
  refused connection, for which the specification's mapping gives \<open>TransportFailure\<close>;
  both operations raise \<open>SearXNGConnectionError\<close>, the class that a refused connection
  raises.
\<close>

theorem transport_error_counterexample:
  "http_get status_runtime (health_request (SearXNGClient_init example_config)) =
     Raises_httpx HTTPStatusError ''Server error 500''
   \<and> spec_transport_kind HTTPStatusError = TransportFailure
   \<and> fst (health_check status_runtime (SearXNGClient_init example_config)) =
       Inl (SearXNGConnectionError ''HTTP error while connecting to SearXNG: Server error 500'')
   \<and> raised_kind (fst (health_check status_runtime (SearXNGClient_init example_config))) =
       Some ConnectionFailure
   \<and> fst (search status_runtime (SearXNGClient_init example_config) (PStr ''rust'')
            PNone PNone PNone PNone) =
       Inl (SearXNGConnectionError ''HTTP error while searching: Server error 500'')
   \<and> raised_kind (fst (search status_runtime (SearXNGClient_init example_config) (PStr ''rust'')
            PNone PNone PNone PNone)) = Some ConnectionFailure"
  by (simp add: status_runtime_def spec_transport_kind_def health_check_def search_def
      build_params_def search_transport_error_def)

lemma health_check_transport_error:
  assumes "http_get rt (health_request c) = Raises_httpx e m"
  shows "fst (health_check rt c) =
         Inl (if is_TimeoutException e then
                SearXNGTimeoutError
                  (''SearXNG health check timed out after '' @ str_int (timeout c) @ ''s'')
              else if is_ConnectError e then
                SearXNGConnectionError
                  (''Unable to connect to SearXNG at '' @ base_url c @
                   ''. Please ensure SearXNG is running.'')
              else SearXNGConnectionError (''HTTP error while connecting to SearXNG: '' @ m))"
  using assms by (simp add: health_check_def)

lemma search_transport_error:
  assumes "check_limit max_results (client_max_results_limit c) = None"
    and "build_params q categories language time_range = Inr ps"
    and "http_get rt (search_request c ps) = Raises_httpx e m"
  shows "fst (search rt c q max_results categories language time_range) =
         Inl (if is_TimeoutException e then
                SearXNGTimeoutError
                  (''Search request timed out after '' @ str_int (timeout c) @ ''s'')
              else if is_ConnectError e then
                SearXNGConnectionError
                  (''Unable to connect to SearXNG at '' @ base_url c @
                   ''. Please ensure SearXNG is running.'')
              else SearXNGConnectionError (''HTTP error while searching: '' @ m))"
  using assms by (simp add: search_def search_transport_error_def)

text \<open>
  Claim C3, amended. Each operation, on its own, maps a transport error to one of two
  kinds: \<open>SearXNGTimeoutError\<close> exactly when it is a timeout, \<open>SearXNGConnectionError\<close>
  for every other one, whether the connection could not be established or anything else
  went wrong; the two cases differ in their message only. No third kind is raised.
\<close>

theorem transport_errors_two_kinds:
  "(http_get rt (health_request c) = Raises_httpx e m \<longrightarrow>
      fst (health_check rt c) =
         Inl (if is_TimeoutException e then
                SearXNGTimeoutError
                  (''SearXNG health check timed out after '' @ str_int (timeout c) @ ''s'')
              else if is_ConnectError e then
                SearXNGConnectionError
                  (''Unable to connect to SearXNG at '' @ base_url c @
                   ''. Please ensure SearXNG is running.'')
              else SearXNGConnectionError (''HTTP error while connecting to SearXNG: '' @ m))
      \<and> raised_kind (fst (health_check rt c)) =
           Some (if is_TimeoutException e then TimeoutFailure else ConnectionFailure))
   \<and> (check_limit max_results (client_max_results_limit c) = None
       \<and> build_params q categories language time_range = Inr ps
       \<and> http_get rt (search_request c ps) = Raises_httpx e' m' \<longrightarrow>
      fst (search rt c q max_results categories language time_range) =
         Inl (if is_TimeoutException e' then
                SearXNGTimeoutError
                  (''Search request timed out after '' @ str_int (timeout c) @ ''s'')
              else if is_ConnectError e' then
                SearXNGConnectionError
                  (''Unable to connect to SearXNG at '' @ base_url c @
                   ''. Please ensure SearXNG is running.'')
              else SearXNGConnectionError (''HTTP error while searching: '' @ m'))
      \<and> raised_kind (fst (search rt c q max_results categories language time_range)) =
           Some (if is_TimeoutException e' then TimeoutFailure else ConnectionFailure))"
proof (intro conjI impI)
  assume h: "http_get rt (health_request c) = Raises_httpx e m"
  show "fst (health_check rt c) =
         Inl (if is_TimeoutException e then
                SearXNGTimeoutError
                  (''SearXNG health check timed out after '' @ str_int (timeout c) @ ''s'')
              else if is_ConnectError e then
                SearXNGConnectionError
                  (''Unable to connect to SearXNG at '' @ base_url c @
                   ''. Please ensure SearXNG is running.'')
              else SearXNGConnectionError (''HTTP error while connecting to SearXNG: '' @ m))"
    by (rule health_check_transport_error [OF h])
  then show "raised_kind (fst (health_check rt c)) =
           Some (if is_TimeoutException e then TimeoutFailure else ConnectionFailure)"
    by simp
next
  assume s: "check_limit max_results (client_max_results_limit c) = None
       \<and> build_params q categories language time_range = Inr ps
       \<and> http_get rt (search_request c ps) = Raises_httpx e' m'"
  then have passes: "check_limit max_results (client_max_results_limit c) = None"
    and params: "build_params q categories language time_range = Inr ps"
    and raised: "http_get rt (search_request c ps) = Raises_httpx e' m'"
    by blast+
  show "fst (search rt c q max_results categories language time_range) =
         Inl (if is_TimeoutException e' then
                SearXNGTimeoutError
                  (''Search request timed out after '' @ str_int (timeout c) @ ''s'')
              else if is_ConnectError e' then
                SearXNGConnectionError
                  (''Unable to connect to SearXNG at '' @ base_url c @
                   ''. Please ensure SearXNG is running.'')
              else SearXNGConnectionError (''HTTP error while searching: '' @ m'))"
    by (rule search_transport_error [OF passes params raised])
  then show "raised_kind (fst (search rt c q max_results categories language time_range)) =
           Some (if is_TimeoutException e' then TimeoutFailure else ConnectionFailure)"
    by simp
qed

theorem transport_errors_two_kinds_witness:
  "fst (health_check slow_runtime (SearXNGClient_init example_config)) =
     Inl (SearXNGTimeoutError ''SearXNG health check timed out after 10s'')
   \<and> raised_kind (fst (health_check slow_runtime (SearXNGClient_init example_config))) =
     Some TimeoutFailure
   \<and> fst (search refusing_runtime (SearXNGClient_init example_config) (PStr ''rust'')
            (PInt 5) PNone PNone PNone) =
       Inl (SearXNGConnectionError
         ''Unable to connect to SearXNG at http://localhost:8080. Please ensure SearXNG is running.'')
   \<and> raised_kind (fst (search refusing_runtime (SearXNGClient_init example_config) (PStr ''rust'')
            (PInt 5) PNone PNone PNone)) = Some ConnectionFailure"
proof -
  have slow: "http_get slow_runtime (health_request (SearXNGClient_init example_config)) =
      Raises_httpx ReadTimeout ''timed out''"
    by (simp add: slow_runtime_def)
  have refused:
    "check_limit (PInt 5) (client_max_results_limit (SearXNGClient_init example_config)) = None
     \<and> build_params (PStr ''rust'') PNone PNone PNone =
         Inr [(''q'', PStr ''rust''), (''format'', PStr ''json'')]
     \<and> http_get refusing_runtime (search_request (SearXNGClient_init example_config)
          [(''q'', PStr ''rust''), (''format'', PStr ''json'')]) =
         Raises_httpx ConnectError ''All connection attempts failed''"
    by (simp add: example_client build_params_def refusing_runtime_def)
  from transport_errors_two_kinds [where rt = slow_runtime
      and c = "SearXNGClient_init example_config" and e = ReadTimeout and m = "''timed out''",
      THEN conjunct1] slow
  have health:
    "fst (health_check slow_runtime (SearXNGClient_init example_config)) =
       Inl (SearXNGTimeoutError ''SearXNG health check timed out after 10s'')
     \<and> raised_kind (fst (health_check slow_runtime (SearXNGClient_init example_config))) =
       Some TimeoutFailure"
    by (simp add: example_client str_int_10)
  from transport_errors_two_kinds [where rt = refusing_runtime
      and c = "SearXNGClient_init example_config" and max_results = "PInt 5"
      and q = "PStr ''rust''" and categories = PNone and language = PNone and time_range = PNone
      and ps = "[(''q'', PStr ''rust''), (''format'', PStr ''json'')]" and e' = ConnectError
      and m' = "''All connection attempts failed''", THEN conjunct2] refused
  have "fst (search refusing_runtime (SearXNGClient_init example_config) (PStr ''rust'')
            (PInt 5) PNone PNone PNone) =
       Inl (SearXNGConnectionError
         ''Unable to connect to SearXNG at http://localhost:8080. Please ensure SearXNG is running.'')
     \<and> raised_kind (fst (search refusing_runtime (SearXNGClient_init example_config)
            (PStr ''rust'') (PInt 5) PNone PNone PNone)) = Some ConnectionFailure"
    by (simp add: example_client)
  with health show ?thesis
    by simp
qed

subsection \<open>The request that \<open>search\<close> sends\<close>

lemma as_str_list_map_PStr: "as_str_list (map PStr xs) = Some xs"
  by (induction xs) simp_all

lemma rstrip_decompose:
  "s = rstrip c s @ replicate (length (takeWhile (\<lambda>x. x = c) (rev s))) c"
proof -
  have tw: "takeWhile (\<lambda>x. x = c) xs = replicate (length (takeWhile (\<lambda>x. x = c) xs)) c" for xs
    by (induction xs) simp_all
  have "rev s = takeWhile (\<lambda>x. x = c) (rev s) @ dropWhile (\<lambda>x. x = c) (rev s)"
    by simp
  then have "s = rev (dropWhile (\<lambda>x. x = c) (rev s)) @ rev (takeWhile (\<lambda>x. x = c) (rev s))"
    by (metis rev_append rev_rev_ident)
  also have "rev (takeWhile (\<lambda>x. x = c) (rev s)) =
      replicate (length (takeWhile (\<lambda>x. x = c) (rev s))) c"
    using tw [of "rev s"] by (metis rev_replicate)
  finally show ?thesis by (simp add: rstrip_def)
qed

lemma rstrip_no_trailing: "\<not> suffix [c] (rstrip c s)"
proof
  assume "suffix [c] (rstrip c s)"
  then obtain p where p: "rev (dropWhile (\<lambda>x. x = c) (rev s)) = p @ [c]"
    by (auto simp: suffix_def rstrip_def)
  then have "dropWhile (\<lambda>x. x = c) (rev s) = c # rev p"
    by (metis rev_append rev_rev_ident rev_singleton_conv append_Cons append_Nil)
  then show False
    by (metis (mono_tags, lifting) hd_dropWhile list.sel(1) list.distinct(1))
qed

lemma build_params_typed:
  "build_params (PStr q) (opt_str_list categories) (opt_str language) (opt_str time_range) =
     Inr ([(''q'', PStr q), (''format'', PStr ''json'')]
          @ (case categories of
               None \<Rightarrow> []
             | Some cs \<Rightarrow> if cs = [] then [] else [(''categories'', PStr (join '','' cs))])
          @ (case language of
               None \<Rightarrow> []
             | Some l \<Rightarrow> if l = [] then [] else [(''language'', PStr l)])
          @ (case time_range of
               None \<Rightarrow> []
             | Some t \<Rightarrow> if t = [] then [] else [(''time_range'', PStr t)]))"
  by (simp add: build_params_def opt_str_def opt_str_list_def as_str_list_map_PStr
      split: option.splits)

lemma search_sends_request:
  "check_limit max_results (client_max_results_limit c) = None \<Longrightarrow>
   build_params q categories language time_range = Inr ps \<Longrightarrow>
   snd (search rt c q max_results categories language time_range) = [HttpGet (search_request c ps)]"
  by (simp add: search_def split: http_outcome.splits)

text \<open>
  Claim C9. A call of \<open>search\<close> that passes the ceiling check sends one request, to
  \<open>{base_url}/search\<close>. Its parameters are \<open>q\<close> and \<open>format=json\<close>, then \<open>categories\<close>
  when the list is given and not empty, joined with commas, then \<open>language\<close> and
  \<open>time_range\<close>, each when given (and not the empty string). The client's base URL is
  the configured one without its trailing slashes.
\<close>

theorem search_request_shape:
  assumes "check_limit max_results (client_max_results_limit c) = None"
  shows "snd (search rt c (PStr q) max_results (opt_str_list categories) (opt_str language)
               (opt_str time_range)) =
     [HttpGet
        \<lparr>req_url = base_url c @ ''/search'',
         req_params =
           [(''q'', PStr q), (''format'', PStr ''json'')]
           @ (case categories of
                None \<Rightarrow> []
              | Some cs \<Rightarrow> if cs = [] then [] else [(''categories'', PStr (join '','' cs))])
           @ (case language of
                None \<Rightarrow> []
              | Some l \<Rightarrow> if l = [] then [] else [(''language'', PStr l)])
           @ (case time_range of
                None \<Rightarrow> []
              | Some t \<Rightarrow> if t = [] then [] else [(''time_range'', PStr t)]),
         req_headers = headers c, req_timeout = timeout c\<rparr>]
   \<and> base_url (SearXNGClient_init cfg) = rstrip CHR ''/'' (searxng_base_url cfg)
   \<and> \<not> suffix ''/'' (base_url (SearXNGClient_init cfg))
   \<and> (\<exists>k. searxng_base_url cfg = base_url (SearXNGClient_init cfg) @ replicate k CHR ''/'')"
proof -
  have "base_url (SearXNGClient_init cfg) = rstrip CHR ''/'' (searxng_base_url cfg)"
    by (simp add: SearXNGClient_init_def)
  moreover have "\<exists>k. searxng_base_url cfg = rstrip CHR ''/'' (searxng_base_url cfg) @ replicate k CHR ''/''"
    using rstrip_decompose [of "searxng_base_url cfg" "CHR ''/''"] by blast
  ultimately show ?thesis
    using search_sends_request [OF assms build_params_typed, of rt q categories language time_range]
      rstrip_no_trailing [of "CHR ''/''" "searxng_base_url cfg"]
    by (simp add: search_request_def)
qed

theorem search_request_shape_witness:
  "snd (search refusing_runtime (SearXNGClient_init example_config) (PStr ''rust'') (PInt 5)
         (opt_str_list (Some [''general'', ''news''])) (opt_str (Some ''en'')) (opt_str None)) =
     [HttpGet
        \<lparr>req_url = ''http://localhost:8080/search'',
         req_params =
           [(''q'', PStr ''rust''), (''format'', PStr ''json''),
            (''categories'', PStr ''general,news''), (''language'', PStr ''en'')],
         req_headers =
           [(''User-Agent'', ''searxng-mcp-server/1.0''), (''Accept'', ''application/json'')],
         req_timeout = 10\<rparr>]"
proof -
  have passes:
    "check_limit (PInt 5) (client_max_results_limit (SearXNGClient_init example_config)) = None"
    by (simp add: example_client)
  from search_request_shape [OF passes, of refusing_runtime "''rust''"
      "Some [''general'', ''news'']" "Some ''en''" None example_config, THEN conjunct1]
  show ?thesis
    by (simp add: example_client)
qed

subsection \<open>What \<open>search\<close> returns\<close>

lemma py_getitem_Inr:
  "py_getitem d k = Inr v \<Longrightarrow> \<exists>kvs. d = PDict kvs \<and> map_of kvs k = Some v"
  by (cases d) (auto split: option.splits)

lemma as_str_Some: "as_str v = Some s \<Longrightarrow> v = PStr s"
  by (cases v) auto

lemma map_of_Some_key: "map_of kvs k = Some v \<Longrightarrow> k \<in> fst ` set kvs"
  by (metis map_of_eq_None_iff option.distinct(1))

lemma parse_response_success:
  assumes "map_of kvs ''query'' = Some (PStr qs)" and "map_of kvs ''results'' = Some rv"
    and "py_iter rv = Inr items" and "parse_results items [] = Inr accepted"
    and "limit_results max_results accepted = Inr limited"
  shows "parse_response rt max_results (Some (PDict kvs)) =
           Inr \<lparr>query = qs, results = limited, number_of_results = int (length limited)\<rparr>"
  using assms map_of_Some_key [OF assms(1)] map_of_Some_key [OF assms(2)]
  by (simp add: parse_response_def build_results_def SearchResults_init_def)

lemma parse_response_Inr:
  assumes "parse_response rt max_results body = Inr rs"
  shows "\<exists>kvs rv items accepted.
           body = Some (PDict kvs) \<and> map_of kvs ''query'' = Some (PStr (query rs))
           \<and> map_of kvs ''results'' = Some rv \<and> py_iter rv = Inr items
           \<and> parse_results items [] = Inr accepted
           \<and> limit_results max_results accepted = Inr (results rs)
           \<and> number_of_results rs = int (length (results rs))"
proof -
  from assms obtain data where body: "body = Some data"
    by (cases body) (auto simp: parse_response_def)
  from assms body have built: "build_results max_results data = Inr rs"
    by (auto simp: parse_response_def split: sum.splits bool.splits)
  then obtain rv where rv: "py_getitem data ''results'' = Inr rv"
    by (auto simp: build_results_def split: sum.splits)
  then obtain kvs where data: "data = PDict kvs" and res: "map_of kvs ''results'' = Some rv"
    by (auto dest: py_getitem_Inr)
  from built rv obtain items accepted limited q where
    steps: "py_iter rv = Inr items" "parse_results items [] = Inr accepted"
      "limit_results max_results accepted = Inr limited" "py_getitem data ''query'' = Inr q"
      "SearchResults_init q limited (int (length limited)) = Inr rs"
    by (auto simp: build_results_def split: sum.splits)
  from steps(5) have "q = PStr (query rs)" "results rs = limited"
      "number_of_results rs = int (length limited)"
    by (auto simp: SearchResults_init_def split: option.splits if_splits dest: as_str_Some)
  with steps data res body show ?thesis
    by (auto split: option.splits)
qed

lemma search_Inr:
  assumes "search rt c q max_results categories language time_range = (Inr rs, evs)"
  shows "\<exists>ps body. check_limit max_results (client_max_results_limit c) = None
           \<and> build_params q categories language time_range = Inr ps
           \<and> http_get rt (search_request c ps) = Responds body
           \<and> parse_response rt max_results body = Inr rs
           \<and> evs = [HttpGet (search_request c ps)]"
  using assms
  by (auto simp: search_def split: option.splits sum.splits http_outcome.splits)

lemma limit_results_prefix: "limit_results max_results acc = Inr l \<Longrightarrow> prefix l acc"
  by (cases max_results) (auto simp: take_is_prefix)

text \<open>
  Claim C1. When \<open>search\<close> returns a result set, its \<open>number_of_results\<close> is the length
  of its \<open>results\<close>. The results are the accepted elements of the response, cut to the
  first \<open>max_results\<close> of them when \<open>max_results\<close> is given and positive: a prefix of the
  accepted sequence, so in the same order, and never longer than \<open>max_results\<close>.
\<close>

theorem search_result_count:
  assumes "search rt c q max_results categories language time_range = (Inr rs, evs)"
  shows "number_of_results rs = int (length (results rs))
     \<and> (\<exists>ps kvs rv items accepted.
           http_get rt (search_request c ps) = Responds (Some (PDict kvs))
           \<and> map_of kvs ''results'' = Some rv \<and> py_iter rv = Inr items
           \<and> parse_results items [] = Inr accepted
           \<and> prefix (results rs) accepted
           \<and> (max_results = PNone \<longrightarrow> results rs = accepted)
           \<and> (\<forall>n. max_results = PInt n \<longrightarrow>
                 results rs = (if 0 < n then take (nat n) accepted else accepted)
                 \<and> (0 < n \<longrightarrow> int (length (results rs)) \<le> n)))"
proof -
  from search_Inr [OF assms] obtain ps body where
    sent: "http_get rt (search_request c ps) = Responds body"
    and parsed: "parse_response rt max_results body = Inr rs"
    by blast
  from parse_response_Inr [OF parsed] obtain kvs rv items accepted where
    body: "body = Some (PDict kvs)" and rv: "map_of kvs ''results'' = Some rv"
    and items: "py_iter rv = Inr items" and accepted: "parse_results items [] = Inr accepted"
    and limited: "limit_results max_results accepted = Inr (results rs)"
    and count: "number_of_results rs = int (length (results rs))"
    by blast
  have "max_results = PNone \<longrightarrow> results rs = accepted"
    using limited by auto
  moreover have "\<forall>n. max_results = PInt n \<longrightarrow>
      results rs = (if 0 < n then take (nat n) accepted else accepted)
      \<and> (0 < n \<longrightarrow> int (length (results rs)) \<le> n)"
  proof (intro allI impI conjI)
    fix n
    assume n: "max_results = PInt n"
    with limited show eq: "results rs = (if 0 < n then take (nat n) accepted else accepted)"
      by auto
    assume "0 < n"
    with eq have "length (results rs) \<le> nat n"
      by simp
    with \<open>0 < n\<close> show "int (length (results rs)) \<le> n"
      by linarith
  qed
  ultimately show ?thesis
    using sent body rv items accepted count limit_results_prefix [OF limited] by blast
qed

theorem search_result_count_witness:
  "number_of_results
     \<lparr>query = ''rust programming'', results = [rust_result], number_of_results = 1\<rparr> =
   int (length (results
     \<lparr>query = ''rust programming'', results = [rust_result], number_of_results = 1\<rparr>))
   \<and> fst (search example_runtime (SearXNGClient_init example_config) (PStr ''rust programming'')
       (PInt 1) PNone PNone PNone) =
     Inr \<lparr>query = ''rust programming'', results = [rust_result], number_of_results = 1\<rparr>"
  using search_result_count [OF example_search] example_search
  by simp

text \<open>
  Claim C10. Called with a \<open>max_results\<close> that is zero or negative (and so not above the
  ceiling), \<open>search\<close> passes the ceiling check, sends its request, and returns every
  accepted element, uncut, with \<open>number_of_results\<close> their number.
\<close>

theorem search_nonpositive_max_results:
  assumes "n \<le> 0" and "n \<le> client_max_results_limit c"
    and "build_params q categories language time_range = Inr ps"
    and "http_get rt (search_request c ps) = Responds (Some (PDict kvs))"
    and "map_of kvs ''query'' = Some (PStr qs)" and "map_of kvs ''results'' = Some rv"
    and "py_iter rv = Inr items" and "parse_results items [] = Inr accepted"
  shows "search rt c q (PInt n) categories language time_range =
           (Inr \<lparr>query = qs, results = accepted, number_of_results = int (length accepted)\<rparr>,
            [HttpGet (search_request c ps)])"
proof -
  from assms(1) have "limit_results (PInt n) accepted = Inr accepted"
    by simp
  from parse_response_success [OF assms(5) assms(6) assms(7) assms(8) this]
  show ?thesis
    using assms(2,3,4) by (simp add: search_def)
qed

theorem search_nonpositive_max_results_witness:
  "search example_runtime (SearXNGClient_init example_config) (PStr ''rust programming'')
       (PInt 0) PNone PNone PNone =
     (Inr \<lparr>query = ''rust programming'', results = [rust_result, book_result],
           number_of_results = 2\<rparr>,
      [HttpGet (search_request (SearXNGClient_init example_config)
         [(''q'', PStr ''rust programming''), (''format'', PStr ''json'')])])"
proof -
  have below: "(0::int) \<le> client_max_results_limit (SearXNGClient_init example_config)"
    by (simp add: example_client)
  have answer:
    "http_get example_runtime (search_request (SearXNGClient_init example_config)
        [(''q'', PStr ''rust programming''), (''format'', PStr ''json'')]) =
       Responds (Some (PDict [(''query'', PStr ''rust programming''),
                              (''results'', PList example_items)]))"
    by (simp add: example_runtime_def example_body_def)
  from search_nonpositive_max_results [OF order_refl below example_request answer _ _ _
      parse_example_items, of "''rust programming''" "PList example_items"]
  show ?thesis
    by simp
qed

subsection \<open>Which elements of the response are kept\<close>

text \<open>
  Claim C5, as stated, fails. An element that is \<open>null\<close> has none of the three fields, yet
  it is not passed over: testing it for the keys raises, and the whole response is
  rejected. And an element that has all three fields, the title being \<open>null\<close>, is not
  included: building the result raises, and the whole response is rejected.
\<close>

theorem parse_results_counterexample:
  "\<not> has_required_fields PNone
   \<and> parse_results
       [PNone,
        PDict [(''title'', PStr ''Rust''), (''url'', PStr ''https://rust-lang.org''),
               (''content'', PStr ''A systems language'')]] [] = Inl (TypeError PNone)
   \<and> search null_element_runtime (SearXNGClient_init example_config) (PStr ''rust'')
       PNone PNone PNone PNone =
     (Inl (SearXNGResponseError ''Failed to parse SearXNG response: error''),
      [HttpGet (search_request (SearXNGClient_init example_config)
         [(''q'', PStr ''rust''), (''format'', PStr ''json'')])])
   \<and> has_required_fields null_title_element
   \<and> parse_results [null_title_element] [] = Inl (ValidationError ''SearchResult'')
   \<and> search null_title_runtime (SearXNGClient_init example_config) (PStr ''rust'')
       PNone PNone PNone PNone =
     (Inl (SearXNGResponseError ''Failed to parse SearXNG response: error''),
      [HttpGet (search_request (SearXNGClient_init example_config)
         [(''q'', PStr ''rust''), (''format'', PStr ''json'')])])"
  by (simp add: has_required_fields_def null_title_element_def null_title_body_def
      null_element_body_def null_element_runtime_def null_title_runtime_def
      make_result_def SearchResult_init_def dict_get_def search_def build_params_def
      parse_response_def build_results_def)

lemma all_in_required_PDict:
  "all_in [''title'', ''url'', ''content''] (PDict kvs) = Inr (has_required_fields (PDict kvs))"
  by (auto simp: has_required_fields_def split: bool.splits)

lemma accepted_has_required_fields:
  "all_in [''title'', ''url'', ''content''] e = Inr True \<Longrightarrow> make_result e = Inr r \<Longrightarrow>
   has_required_fields e"
  by (cases e) (auto simp: make_result_def all_in_required_PDict simp del: all_in.simps)

lemma all_in_False:
  "all_in [''title'', ''url'', ''content''] e = Inr False \<Longrightarrow> \<not> has_required_fields e"
  by (cases e) (auto simp: all_in_required_PDict has_required_fields_def simp del: all_in.simps)

lemma as_str_list_Some: "as_str_list xs = Some ss \<Longrightarrow> xs = map PStr ss"
  by (induction xs arbitrary: ss) (auto split: option.splits dest: as_str_Some)

lemma make_result_item: "make_result e = Inr r \<Longrightarrow> item_of e r"
proof -
  assume m: "make_result e = Inr r"
  then obtain kvs where e: "e = PDict kvs"
    by (cases e) (auto simp: make_result_def)
  from m e obtain t u c where
    f: "map_of kvs ''title'' = Some t" "map_of kvs ''url'' = Some u" "map_of kvs ''content'' = Some c"
    and init: "SearchResult_init t u c (dict_get kvs ''publishedDate'' PNone)
         (dict_get kvs ''engines'' (PList [])) = Inr r"
    by (auto simp: make_result_def split: option.splits sum.splits)
  from init obtain p' e' where
    r: "t = PStr (title r)" "u = PStr (url r)" "c = PStr (content r)"
      "as_opt_str (dict_get kvs ''publishedDate'' PNone) = Some p'" "publishedDate r = p'"
      "as_list_of_str (dict_get kvs ''engines'' (PList [])) = Some e'" "engines r = e'"
    by (auto simp: SearchResult_init_def split: option.splits dest!: as_str_Some)
  from r(4,5) have pd: "case map_of kvs ''publishedDate'' of
                None \<Rightarrow> publishedDate r = None
              | Some PNone \<Rightarrow> publishedDate r = None
              | Some (PStr d) \<Rightarrow> publishedDate r = Some d
              | Some _ \<Rightarrow> False"
    by (auto simp: dict_get_def split: option.splits pyval.splits)
  from r(6,7) have en: "case map_of kvs ''engines'' of
                None \<Rightarrow> engines r = []
              | Some (PList xs) \<Rightarrow> xs = map PStr (engines r)
              | Some _ \<Rightarrow> False"
    by (auto simp: dict_get_def split: option.splits pyval.splits dest: as_str_list_Some)
  from e f r(1-3) pd en show ?thesis
    by (simp add: item_of_def)
qed

lemma parse_results_acc:
  "parse_results items acc = Inr rs \<Longrightarrow>
   \<exists>new. rs = acc @ new \<and> list_all2 item_of (filter has_required_fields items) new"
proof (induction items arbitrary: acc)
  case Nil
  then show ?case by simp
next
  case (Cons e items)
  show ?case
  proof (cases "all_in [''title'', ''url'', ''content''] e")
    case (Inl x)
    with Cons.prems show ?thesis by (simp del: all_in.simps)
  next
    case (Inr b)
    show ?thesis
    proof (cases b)
      case False
      with Inr Cons.prems have "parse_results items acc = Inr rs"
        by (simp del: all_in.simps)
      from Cons.IH [OF this] False Inr all_in_False [of e] show ?thesis
        by (simp del: all_in.simps)
    next
      case True
      with Inr Cons.prems obtain r where r: "make_result e = Inr r"
        and rest: "parse_results items (acc @ [r]) = Inr rs"
        by (auto simp del: all_in.simps split: sum.splits)
      from Cons.IH [OF rest] obtain new where
        new: "rs = (acc @ [r]) @ new" "list_all2 item_of (filter has_required_fields items) new"
        by blast
      from Inr True r have "has_required_fields e"
        by (simp add: accepted_has_required_fields)
      with new make_result_item [OF r] show ?thesis
        by (intro exI [of _ "r # new"]) simp
    qed
  qed
qed

lemma item_make_result:
  assumes "item_of (PDict kvs) r"
  shows "make_result (PDict kvs) = Inr r"
proof -
  from assms have f: "map_of kvs ''title'' = Some (PStr (title r))"
    "map_of kvs ''url'' = Some (PStr (url r))" "map_of kvs ''content'' = Some (PStr (content r))"
    by (simp_all add: item_of_def)
  from assms have "as_opt_str (dict_get kvs ''publishedDate'' PNone) = Some (publishedDate r)"
    by (auto simp: item_of_def dict_get_def split: option.splits pyval.splits)
  moreover from assms
  have "as_list_of_str (dict_get kvs ''engines'' (PList [])) = Some (engines r)"
    by (auto simp: item_of_def dict_get_def as_str_list_map_PStr split: option.splits pyval.splits)
  ultimately show ?thesis
    using f by (simp add: make_result_def SearchResult_init_def)
qed

lemma parse_results_total:
  "\<forall>e \<in> set items. (\<exists>kvs. e = PDict kvs) \<and> (has_required_fields e \<longrightarrow> (\<exists>r. item_of e r)) \<Longrightarrow>
   \<exists>rs. parse_results items acc = Inr rs"
proof (induction items arbitrary: acc)
  case Nil
  then show ?case by simp
next
  case (Cons e items)
  then obtain kvs where e: "e = PDict kvs"
    by auto
  show ?case
  proof (cases "has_required_fields e")
    case False
    with e Cons show ?thesis
      by (simp add: all_in_required_PDict del: all_in.simps)
  next
    case True
    with Cons.prems e obtain r where "item_of (PDict kvs) r"
      by auto
    from item_make_result [OF this] True e Cons.IH [of "acc @ [r]"] Cons.prems show ?thesis
      by (simp add: all_in_required_PDict del: all_in.simps)
  qed
qed

lemma make_result_required:
  assumes "has_required_fields (PDict kvs)"
  shows "make_result (PDict kvs) = Inl (ValidationError ''SearchResult'')
         \<or> (\<exists>r. make_result (PDict kvs) = Inr r)"
proof -
  from assms obtain t u c where "map_of kvs ''title'' = Some t" "map_of kvs ''url'' = Some u"
    "map_of kvs ''content'' = Some c"
    by (auto simp: has_required_fields_def dest!: weak_map_of_SomeI)
  then show ?thesis
    by (auto simp: make_result_def SearchResult_init_def split: option.splits)
qed

lemma parse_results_failure_in_search:
  assumes "check_limit max_results (client_max_results_limit c) = None"
    and "build_params q categories language time_range = Inr ps"
    and "http_get rt (search_request c ps) = Responds (Some (PDict body))"
    and "''query'' \<in> fst ` set body"
    and "map_of body ''results'' = Some (PList items)"
    and "parse_results items [] = Inl x"
  shows "fst (search rt c q max_results categories language time_range) =
           Inl (SearXNGResponseError (''Failed to parse SearXNG response: '' @ str_exc rt x))"
  using assms map_of_Some_key [OF assms(5)]
  by (simp add: search_def parse_response_def build_results_def)

text \<open>
  Claim C5, amended. An element that is an object without one of \<open>title\<close>, \<open>url\<close>,
  \<open>content\<close> is passed over: the loop goes on as if it were not there, and nothing fails.
  When every element is an object and those with the three fields have values of the
  declared types, the response is accepted and its results are, in order, the elements that
  have all three fields, each with its \<open>publishedDate\<close> (\<open>None\<close> when absent) and its
  \<open>engines\<close> (empty when absent); the same holds of every accepted response. An element
  that is \<open>null\<close>, a boolean or a number, or an object with the three fields and a value of
  another type, makes the loop raise, and \<open>search\<close> then fails with
  \<open>SearXNGResponseError\<close>.
\<close>

theorem parse_results_required_fields:
  "(\<not> has_required_fields (PDict kvs) \<longrightarrow>
      parse_results (PDict kvs # rest) acc = parse_results rest acc)
   \<and> ((\<forall>e \<in> set items. (\<exists>kvs. e = PDict kvs) \<and> (has_required_fields e \<longrightarrow> (\<exists>r. item_of e r)))
        \<longrightarrow> (\<exists>rs. parse_results items [] = Inr rs
                 \<and> list_all2 item_of (filter has_required_fields items) rs))
   \<and> (parse_results items [] = Inr rs \<longrightarrow>
        list_all2 item_of (filter has_required_fields items) rs)
   \<and> parse_results (PNone # rest) acc = Inl (TypeError PNone)
   \<and> parse_results (PBool b # rest) acc = Inl (TypeError (PBool b))
   \<and> parse_results (PInt n # rest) acc = Inl (TypeError (PInt n))
   \<and> (has_required_fields (PDict kvs) \<and> (\<forall>r. \<not> item_of (PDict kvs) r) \<longrightarrow>
        parse_results (PDict kvs # rest) acc = Inl (ValidationError ''SearchResult''))
   \<and> (check_limit max_results (client_max_results_limit c) = None
       \<and> build_params q categories language time_range = Inr ps
       \<and> http_get rt (search_request c ps) = Responds (Some (PDict body))
       \<and> ''query'' \<in> fst ` set body
       \<and> map_of body ''results'' = Some (PList items)
       \<and> parse_results items [] = Inl x \<longrightarrow>
        fst (search rt c q max_results categories language time_range) =
          Inl (SearXNGResponseError (''Failed to parse SearXNG response: '' @ str_exc rt x)))"
proof (intro conjI impI)
  assume "\<not> has_required_fields (PDict kvs)"
  then show "parse_results (PDict kvs # rest) acc = parse_results rest acc"
    by (simp add: all_in_required_PDict del: all_in.simps)
next
  assume wf: "\<forall>e \<in> set items. (\<exists>kvs. e = PDict kvs) \<and> (has_required_fields e \<longrightarrow> (\<exists>r. item_of e r))"
  then obtain rs where rs: "parse_results items [] = Inr rs"
    using parse_results_total by blast
  from parse_results_acc [OF rs] rs
  show "\<exists>rs. parse_results items [] = Inr rs
           \<and> list_all2 item_of (filter has_required_fields items) rs"
    by auto
next
  assume "parse_results items [] = Inr rs"
  from parse_results_acc [OF this] show "list_all2 item_of (filter has_required_fields items) rs"
    by simp
next
  show "parse_results (PNone # rest) acc = Inl (TypeError PNone)"
    by simp
  show "parse_results (PBool b # rest) acc = Inl (TypeError (PBool b))"
    by simp
  show "parse_results (PInt n # rest) acc = Inl (TypeError (PInt n))"
    by simp
next
  assume bad: "has_required_fields (PDict kvs) \<and> (\<forall>r. \<not> item_of (PDict kvs) r)"
  with make_result_required [of kvs] make_result_item [of "PDict kvs"]
  have "make_result (PDict kvs) = Inl (ValidationError ''SearchResult'')"
    by blast
  with bad show "parse_results (PDict kvs # rest) acc = Inl (ValidationError ''SearchResult'')"
    by (simp add: all_in_required_PDict del: all_in.simps)
next
  assume "check_limit max_results (client_max_results_limit c) = None
       \<and> build_params q categories language time_range = Inr ps
       \<and> http_get rt (search_request c ps) = Responds (Some (PDict body))
       \<and> ''query'' \<in> fst ` set body
       \<and> map_of body ''results'' = Some (PList items)
       \<and> parse_results items [] = Inl x"
  then have "check_limit max_results (client_max_results_limit c) = None"
    "build_params q categories language time_range = Inr ps"
    "http_get rt (search_request c ps) = Responds (Some (PDict body))"
    "''query'' \<in> fst ` set body" "map_of body ''results'' = Some (PList items)"
    "parse_results items [] = Inl x"
    by blast+
  then show "fst (search rt c q max_results categories language time_range) =
          Inl (SearXNGResponseError (''Failed to parse SearXNG response: '' @ str_exc rt x))"
    by (rule parse_results_failure_in_search)
qed

theorem parse_results_required_fields_witness:
  "parse_results example_items [] = Inr [rust_result, book_result]
   \<and> filter has_required_fields example_items = [example_items ! 0, example_items ! 2]
   \<and> list_all2 item_of [example_items ! 0, example_items ! 2] [rust_result, book_result]
   \<and> publishedDate rust_result = None \<and> engines book_result = []"
proof -
  have kept: "filter has_required_fields example_items = [example_items ! 0, example_items ! 2]"
    by (simp add: example_items_def has_required_fields_def)
  have items: "item_of (example_items ! 0) rust_result" "item_of (example_items ! 2) book_result"
    by (simp_all add: example_items_def item_of_def rust_result_def book_result_def)
  have "\<forall>e \<in> set example_items.
          (\<exists>kvs. e = PDict kvs) \<and> (has_required_fields e \<longrightarrow> (\<exists>r. item_of e r))"
  proof
    fix e
    assume "e \<in> set example_items"
    then consider "e = example_items ! 0" | "e = example_items ! 1" | "e = example_items ! 2"
      by (auto simp: example_items_def)
    then show "(\<exists>kvs. e = PDict kvs) \<and> (has_required_fields e \<longrightarrow> (\<exists>r. item_of e r))"
    proof cases
      case 1
      with items(1) show ?thesis by (auto simp: example_items_def)
    next
      case 2
      then show ?thesis by (simp add: example_items_def has_required_fields_def)
    next
      case 3
      with items(2) show ?thesis by (auto simp: example_items_def)
    qed
  qed
  with parse_results_required_fields [where items = example_items, THEN conjunct2, THEN conjunct1]
  obtain rs where "parse_results example_items [] = Inr rs"
    "list_all2 item_of (filter has_required_fields example_items) rs"
    by blast
  with kept parse_example_items show ?thesis
    by (simp add: rust_result_def book_result_def)
qed

subsection \<open>The formatter on a result set that is not empty\<close>

lemma str_int_1: "str_int 1 = ''1''"
  by code_simp

lemma str_int_2: "str_int 2 = ''2''"
  by code_simp

lemma str_nat_1: "str_nat 1 = ''1''"
  by code_simp

lemma str_nat_Suc_0: "str_nat (Suc 0) = ''1''"
  by code_simp

lemma str_nat_2: "str_nat (Suc (Suc 0)) = ''2''"
  by code_simp



text \<open>
  Claim C7, as stated, fails. A result whose content is the empty string gets no content
  line at all, where the claim has a content line with the content unchanged; and a result
  whose date is the empty string gets no published-date line although a date is present.
\<close>

theorem format_search_results_counterexample:
  "format_search_results empty_content_set =
     join [CHR 0x0A]
       [''Search results for: rust'', ''Found 1 results'', [],
        ''1. Rust'', ''   URL: https://rust-lang.org'', []]
   \<and> spec_format_search_results empty_content_set =
     join [CHR 0x0A]
       [''Search results for: rust'', ''Found 1 results'', [],
        ''1. Rust'', ''   URL: https://rust-lang.org'', ''   '', []]
   \<and> format_search_results empty_content_set \<noteq> spec_format_search_results empty_content_set
   \<and> format_search_results empty_date_set =
     join [CHR 0x0A]
       [''Search results for: rust'', ''Found 1 results'', [],
        ''1. Rust'', ''   URL: https://rust-lang.org'', ''   A systems language'', []]
   \<and> spec_format_search_results empty_date_set =
     join [CHR 0x0A]
       [''Search results for: rust'', ''Found 1 results'', [],
        ''1. Rust'', ''   URL: https://rust-lang.org'', ''   A systems language'',
        ''   Published: '', []]
   \<and> format_search_results empty_date_set \<noteq> spec_format_search_results empty_date_set"
  by (simp add: format_search_results_def spec_format_search_results_def empty_content_set_def
      empty_date_set_def header_lines_def spec_item_lines_def str_int_1 str_nat_Suc_0 str_nat_1)

lemma format_loop_step:
  "format_loop i (r # rest) lines = format_loop (Suc i) rest (lines @ item_lines i r)"
  by (simp add: item_lines_def split: option.splits)

lemma format_loop_items:
  "format_loop i rs lines =
     lines @ concat (map (\<lambda>(i, r). item_lines i r) (zip [i..<i + length rs] rs))"
proof (induction rs arbitrary: i lines)
  case Nil
  then show ?case by simp
next
  case (Cons r rest)
  have "[i..<i + length (r # rest)] = i # [Suc i..<Suc i + length rest]"
    by (subst upt_rec) simp
  with Cons.IH [of "Suc i" "lines @ item_lines i r"] show ?case
    by (simp only: format_loop_step) simp
qed

lemma spec_item_lines_eq:
  "content r \<noteq> [] \<Longrightarrow> publishedDate r \<noteq> Some [] \<Longrightarrow> item_lines i r = spec_item_lines i r"
  by (auto simp: item_lines_def spec_item_lines_def split: option.splits)

text \<open>
  Claim C7, amended. For a result set that is not empty the output is the lines, joined by
  newlines, of the header followed by the lines of each result, in the order of the input
  and numbered from 1: a title line, a URL line, a content line unless the content is
  empty (the first 300 characters and an ellipsis when the content is longer than 300
  characters, the content unchanged otherwise), a published-date line if the date is
  present and not empty, a sources line if there are engines, joined with a comma and a
  space, and an empty line. When no content and no date is empty, this is the output in
  the specification's words.
\<close>

theorem format_search_results_lines:
  assumes "results rs \<noteq> []"
  shows "format_search_results rs =
           join [CHR 0x0A]
             (header_lines rs @
              concat (map (\<lambda>(i, r). item_lines i r)
                        (zip [1..<Suc (length (results rs))] (results rs))))
     \<and> ((\<forall>r \<in> set (results rs). content r \<noteq> [] \<and> publishedDate r \<noteq> Some []) \<longrightarrow>
          format_search_results rs = spec_format_search_results rs)"
proof -
  have eq: "format_search_results rs =
           join [CHR 0x0A]
             (header_lines rs @
              concat (map (\<lambda>(i, r). item_lines i r)
                        (zip [1..<Suc (length (results rs))] (results rs))))"
    using assms format_loop_items [of 1 "results rs" "header_lines rs"]
    by (simp add: format_search_results_def header_lines_def)
  have same: "map (\<lambda>(i, r). item_lines i r) (zip ns (results rs)) =
        map (\<lambda>(i, r). spec_item_lines i r) (zip ns (results rs))"
    if "\<forall>r \<in> set (results rs). content r \<noteq> [] \<and> publishedDate r \<noteq> Some []" for ns
    using that by (auto simp: spec_item_lines_eq dest: set_zip_rightD)
  show ?thesis
  proof (intro conjI impI)
    show "format_search_results rs =
           join [CHR 0x0A]
             (header_lines rs @
              concat (map (\<lambda>(i, r). item_lines i r)
                        (zip [1..<Suc (length (results rs))] (results rs))))"
      by (rule eq)
  next
    assume "\<forall>r \<in> set (results rs). content r \<noteq> [] \<and> publishedDate r \<noteq> Some []"
    from same [OF this, of "[1..<Suc (length (results rs))]"]
    show "format_search_results rs = spec_format_search_results rs"
      by (simp only: eq spec_format_search_results_def)
  qed
qed

theorem format_search_results_lines_witness:
  "format_search_results long_content_set =
     join [CHR 0x0A]
       [''Search results for: rust'', ''Found 2 results'', [],
        ''1. Rust'', ''   URL: https://rust-lang.org'', ''   A systems language'',
        ''   Published: 2024-01-01'', ''   Sources: duckduckgo, brave'', [],
        ''2. Long'', ''   URL: https://example.org'', ''   '' @ replicate 300 CHR ''a'' @ ''...'',
        []]"
proof -
  have "results long_content_set \<noteq> []"
    by (simp add: long_content_set_def)
  from format_search_results_lines [OF this, THEN conjunct1] show ?thesis
    by (simp add: long_content_set_def header_lines_def item_lines_def str_int_2 str_nat_Suc_0
        str_nat_1 str_nat_2 upt_conv_Cons)
qed


end
